theory Spec2Isabelle
  imports Complex_Main
begin

section \<open>Values, errors and the outside world\<close>

text \<open>
  The program is two Python modules: \<^verbatim>\<open>satflow/api.py\<close> (two provider clients) and
  \<^verbatim>\<open>satflow/main.py\<close> (two workflow tasks and the flow that wires them).
  Exceptions are values of type \<open>error\<close>; a call that can raise returns \<open>error + 'a\<close>
  with \<open>Inl\<close> for the exception. \<open>RemoteError\<close> stands for any exception raised inside
  a provider library call (login, search, query, download). \<open>TriggerFailed\<close> is the
  workflow engine's state of a task whose upstream task failed.
\<close>

datatype error =
    ValueError string
  | AssertionError string
  | KeyError string
  | IndexError
  | RemoteError string
  | TriggerFailed

text \<open>
  A product is a Python dict with string keys; only membership of a key and lookup are
  used by the code. The response of the Sentinel query is an ordered dict from product
  id to product: a list of pairs in iteration order, with distinct keys.
\<close>

type_synonym 'v product = "string \<rightharpoonup> 'v"

type_synonym ('k, 'a) ordered_dict = "('k \<times> 'a) list"

type_synonym environ = "string \<rightharpoonup> string"

text \<open>
  The geometry built by \<^verbatim>\<open>shapely.geometry.MultiPoint\<close>: a list of (x, y) points.
  Its \<^verbatim>\<open>.wkt\<close> is the text of this value; the number formatting is not modelled.
  Coordinates are Python floats that the code only stores and passes on; they are
  modelled as reals.
\<close>

datatype geometry = MultiPoint "(real \<times> real) list"

definition points :: "geometry \<Rightarrow> (real \<times> real) list" where
  "points g = (case g of MultiPoint ps \<Rightarrow> ps)"

datatype provider = Copernicus | EarthExplorer

text \<open>
  The remote services are a parameter of the model: what each library call answers to a
  request. \<open>usgs_login\<close> is \<^verbatim>\<open>landsatxplore.api.API(username, password)\<close>,
  \<open>ee_login\<close> is \<^verbatim>\<open>landsatxplore.earthexplorer.EarthExplorer(username, password)\<close>
  (\<open>None\<close>: logged in); the Sentinel calls carry the credentials of the client object.
\<close>

record 'v remote =
  usgs_login :: "string \<Rightarrow> string \<Rightarrow> error option"
  usgs_search :: "string \<Rightarrow> real list \<Rightarrow> string \<Rightarrow> string \<Rightarrow> error + 'v product list"
  ee_login :: "string \<Rightarrow> string \<Rightarrow> error option"
  ee_download :: "'v \<Rightarrow> string \<Rightarrow> error + string"
  sentinel_query ::
    "string \<times> string \<Rightarrow> geometry \<Rightarrow> string \<times> string \<Rightarrow> string
      \<Rightarrow> error + (string, 'v product) ordered_dict"
  sentinel_download :: "string \<times> string \<Rightarrow> 'v \<Rightarrow> string \<Rightarrow> error + string"

text \<open>
  What the program does to the outside world is kept as a chronological log.
  Sessions are numbered in the order of their creation.
\<close>

datatype event =
    SessionOpen provider nat
  | LoginFailed provider
  | Request provider nat string
  | SessionClose provider nat
  | TaskRun string
  | Delay nat

record run_state =
  events :: "event list"
  next_session :: nat

definition emit :: "event \<Rightarrow> run_state \<Rightarrow> run_state" where
  "emit e s = s\<lparr>events := events s @ [e]\<rparr>"

definition new_session :: "provider \<Rightarrow> run_state \<Rightarrow> nat \<times> run_state" where
  "new_session p s =
     (next_session s,
      s\<lparr>events := events s @ [SessionOpen p (next_session s)],
        next_session := Suc (next_session s)\<rparr>)"

text \<open>The state in which nothing has happened yet.\<close>

definition start :: run_state where
  "start = \<lparr>events = [], next_session = 0\<rparr>"

text \<open>The events a call added to the log, and the sessions a log leaves open.\<close>

definition added :: "run_state \<Rightarrow> run_state \<Rightarrow> event list" where
  "added s s' = drop (length (events s)) (events s')"


fun event_provider :: "event \<Rightarrow> provider option" where
  "event_provider (SessionOpen p n) = Some p"
| "event_provider (LoginFailed p) = Some p"
| "event_provider (Request p n d) = Some p"
| "event_provider (SessionClose p n) = Some p"
| "event_provider (TaskRun t) = None"
| "event_provider (Delay d) = None"

section \<open>satflow/api.py\<close>

text \<open>Python truthiness of the value of \<^verbatim>\<open>os.getenv\<close>: a non-empty string.\<close>

definition truthy :: "string option \<Rightarrow> bool" where
  "truthy v = (case v of None \<Rightarrow> False | Some x \<Rightarrow> x \<noteq> [])"

subsection \<open>EarthExplorerApi\<close>

record EarthExplorerApi =
  username :: string
  password :: string

definition EarthExplorerApi_init :: "environ \<Rightarrow> error + EarthExplorerApi" where
  "EarthExplorerApi_init env =
     (let u = env ''LANDSATXPLORE_USERNAME'';
          p = env ''LANDSATXPLORE_PASSWORD''
      in if truthy u \<and> truthy p
         then Inr \<lparr>username = the u, password = the p\<rparr>
         else Inl (AssertionError ''Essential environment variables have not been set.''))"

text \<open>
  \<^verbatim>\<open>query\<close>: a new API instance logs in, searches, and logs out after the search
  returned. Nothing catches an exception of the search, so the logout is skipped then.
\<close>

definition EarthExplorerApi_query ::
  "'v remote \<Rightarrow> EarthExplorerApi \<Rightarrow> string \<Rightarrow> real list \<Rightarrow> string \<Rightarrow> string
    \<Rightarrow> run_state \<Rightarrow> (error + 'v product list) \<times> run_state" where
  "EarthExplorerApi_query r self product_type bbox start_date end_date s =
     (case usgs_login r (username self) (password self) of
        Some e \<Rightarrow> (Inl e, emit (LoginFailed EarthExplorer) s)
      | None \<Rightarrow>
          (let (query_api, s1) = new_session EarthExplorer s;
               s2 = emit (Request EarthExplorer query_api ''search'') s1
           in case usgs_search r product_type bbox start_date end_date of
                Inl e \<Rightarrow> (Inl e, s2)
              | Inr products \<Rightarrow> (Inr products, emit (SessionClose EarthExplorer query_api) s2)))"

text \<open>
  \<^verbatim>\<open>download\<close>: log in, read \<^verbatim>\<open>product['entity_id']\<close> (KeyError when absent),
  download, log out.
\<close>

definition EarthExplorerApi_download ::
  "'v remote \<Rightarrow> EarthExplorerApi \<Rightarrow> 'v product \<Rightarrow> string
    \<Rightarrow> run_state \<Rightarrow> (error + string) \<times> run_state" where
  "EarthExplorerApi_download r self product output_dir s =
     (case ee_login r (username self) (password self) of
        Some e \<Rightarrow> (Inl e, emit (LoginFailed EarthExplorer) s)
      | None \<Rightarrow>
          (let (download_api, s1) = new_session EarthExplorer s
           in case product ''entity_id'' of
                None \<Rightarrow> (Inl (KeyError ''entity_id''), s1)
              | Some entity_id \<Rightarrow>
                  (let s2 = emit (Request EarthExplorer download_api ''download'') s1
                   in case ee_download r entity_id output_dir of
                        Inl e \<Rightarrow> (Inl e, s2)
                      | Inr file_dir \<Rightarrow>
                          (Inr file_dir, emit (SessionClose EarthExplorer download_api) s2))))"

subsection \<open>CopernicusApi\<close>

text \<open>
  The client keeps one \<^verbatim>\<open>SentinelAPI\<close> object, created in the constructor: user,
  password, URL and the number of the session it holds.
\<close>

datatype SentinelAPI = SentinelAPI string string string nat

fun credentials :: "SentinelAPI \<Rightarrow> string \<times> string" where
  "credentials (SentinelAPI u p url n) = (u, p)"

fun session :: "SentinelAPI \<Rightarrow> nat" where
  "session (SentinelAPI u p url n) = n"

record CopernicusApi =
  api :: SentinelAPI

definition CopernicusApi_init ::
  "environ \<Rightarrow> run_state \<Rightarrow> (error + CopernicusApi) \<times> run_state" where
  "CopernicusApi_init env s =
     (let u = env ''DHUS_USER'';
          p = env ''DHUS_PASSWORD''
      in if truthy u \<and> truthy p
         then (let (n, s1) = new_session Copernicus s
               in (Inr \<lparr>api = SentinelAPI (the u) (the p) ''https://scihub.copernicus.eu/dhus'' n\<rparr>,
                   s1))
         else (Inl (AssertionError
                 ''Essential username/password environment variables have not been set.''), s))"

text \<open>
  \<^verbatim>\<open>bbox_to_wkt\<close>: the points \<^verbatim>\<open>(bbox[0], bbox[2])\<close> and \<^verbatim>\<open>(bbox[1], bbox[3])\<close>.
  Indexing a list of fewer than four elements raises IndexError.
\<close>

definition bbox_to_wkt :: "real list \<Rightarrow> error + geometry" where
  "bbox_to_wkt bbox =
     (if length bbox < 4 then Inl IndexError
      else Inr (MultiPoint [(bbox ! 0, bbox ! 2), (bbox ! 1, bbox ! 3)]))"

text \<open>\<^verbatim>\<open>ordered_dict_to_list\<close>: \<^verbatim>\<open>list(ordered_dict.values())\<close>.\<close>

definition ordered_dict_to_list :: "('k, 'a) ordered_dict \<Rightarrow> 'a list" where
  "ordered_dict_to_list ordered_dict = map snd ordered_dict"

definition CopernicusApi_query ::
  "'v remote \<Rightarrow> CopernicusApi \<Rightarrow> string \<Rightarrow> real list \<Rightarrow> string \<Rightarrow> string
    \<Rightarrow> run_state \<Rightarrow> (error + 'v product list) \<times> run_state" where
  "CopernicusApi_query r self product_type bbox start_date end_date s =
     (case bbox_to_wkt bbox of
        Inl e \<Rightarrow> (Inl e, s)
      | Inr wkt \<Rightarrow>
          (let s1 = emit (Request Copernicus (session (api self)) ''query'') s
           in case sentinel_query r (credentials (api self)) wkt (start_date, end_date)
                     product_type of
                Inl e \<Rightarrow> (Inl e, s1)
              | Inr products \<Rightarrow> (Inr (ordered_dict_to_list products), s1)))"

text \<open>
  \<^verbatim>\<open>download\<close>: reads \<^verbatim>\<open>product['title']\<close> for the log line, then
  \<^verbatim>\<open>product['uuid']\<close> (KeyError when absent), and downloads through the client's
  \<^verbatim>\<open>SentinelAPI\<close> object.
\<close>

definition CopernicusApi_download ::
  "'v remote \<Rightarrow> CopernicusApi \<Rightarrow> 'v product \<Rightarrow> string
    \<Rightarrow> run_state \<Rightarrow> (error + string) \<times> run_state" where
  "CopernicusApi_download r self product output_dir s =
     (case product ''title'' of
        None \<Rightarrow> (Inl (KeyError ''title''), s)
      | Some title \<Rightarrow>
          (case product ''uuid'' of
             None \<Rightarrow> (Inl (KeyError ''uuid''), s)
           | Some uuid \<Rightarrow>
               (let s1 = emit (Request Copernicus (session (api self)) ''download'') s
                in case sentinel_download r (credentials (api self)) uuid output_dir of
                     Inl e \<Rightarrow> (Inl e, s1)
                   | Inr file_dir \<Rightarrow> (Inr file_dir, s1))))"

section \<open>satflow/main.py\<close>

text \<open>The task function \<^verbatim>\<open>query\<close> (without the engine's retry wrapper).\<close>

definition query ::
  "environ \<Rightarrow> 'v remote \<Rightarrow> string \<Rightarrow> real list \<Rightarrow> string \<Rightarrow> string
    \<Rightarrow> run_state \<Rightarrow> (error + 'v product list) \<times> run_state" where
  "query env r product_type bbox start_date end_date s =
     (if product_type = ''S2MSI1C'' then
        (case CopernicusApi_init env s of
           (Inl e, s1) \<Rightarrow> (Inl e, s1)
         | (Inr a, s1) \<Rightarrow> CopernicusApi_query r a product_type bbox start_date end_date s1)
      else if product_type = ''landsat_8_c1'' then
        (case EarthExplorerApi_init env of
           Inl e \<Rightarrow> (Inl e, s)
         | Inr a \<Rightarrow> EarthExplorerApi_query r a product_type bbox start_date end_date s)
      else (Inl (ValueError ''Product type value is not currently supported.''), s))"

text \<open>
  The body of the loop of \<^verbatim>\<open>download_all\<close> for one product: the if/elif/else chain
  on the keys of the product, the construction of the client, and the download.
\<close>

definition download_product ::
  "environ \<Rightarrow> 'v remote \<Rightarrow> 'v product \<Rightarrow> run_state \<Rightarrow> (error + string) \<times> run_state" where
  "download_product env r product s =
     (if product ''uuid'' \<noteq> None then
        (case CopernicusApi_init env s of
           (Inl e, s1) \<Rightarrow> (Inl e, s1)
         | (Inr a, s1) \<Rightarrow> CopernicusApi_download r a product ''../satdata/sentinel'' s1)
      else if product ''entity_id'' \<noteq> None then
        (case EarthExplorerApi_init env of
           Inl e \<Rightarrow> (Inl e, s)
         | Inr a \<Rightarrow> EarthExplorerApi_download r a product ''../satdata/landsat'' s)
      else (Inl (ValueError ''Unknown product type''), s))"

text \<open>
  The loop: \<open>product_dirs\<close> is the list built so far; an exception leaves the loop and
  the function, and the list is lost.
\<close>

fun download_loop ::
  "environ \<Rightarrow> 'v remote \<Rightarrow> string list \<Rightarrow> 'v product list
    \<Rightarrow> run_state \<Rightarrow> (error + string list) \<times> run_state" where
  "download_loop env r product_dirs [] s = (Inr product_dirs, s)"
| "download_loop env r product_dirs (product # products) s =
     (case download_product env r product s of
        (Inl e, s1) \<Rightarrow> (Inl e, s1)
      | (Inr d, s1) \<Rightarrow> download_loop env r (product_dirs @ [d]) products s1)"

definition download_all ::
  "environ \<Rightarrow> 'v remote \<Rightarrow> 'v product list \<Rightarrow> run_state \<Rightarrow> (error + string list) \<times> run_state" where
  "download_all env r products s = download_loop env r [] products s"

subsection \<open>The workflow engine\<close>

text \<open>
  The decorator \<^verbatim>\<open>@task(max_retries=3, retry_delay=timedelta(seconds=5))\<close> hands the
  function to the workflow engine (Prefect, not part of the repository). Its task runner
  runs the function; when the run raised (any exception) and retries are left, it waits
  \<open>retry_delay\<close> and runs it again. \<open>max_retries\<close> counts the retries after the first
  run; a plain \<^verbatim>\<open>@task\<close> has none.
\<close>

fun task_run ::
  "nat \<Rightarrow> nat \<Rightarrow> string \<Rightarrow> (run_state \<Rightarrow> (error + 'a) \<times> run_state)
    \<Rightarrow> run_state \<Rightarrow> (error + 'a) \<times> run_state" where
  "task_run 0 retry_delay name run s = run (emit (TaskRun name) s)"
| "task_run (Suc max_retries) retry_delay name run s =
     (case run (emit (TaskRun name) s) of
        (Inr v, s1) \<Rightarrow> (Inr v, s1)
      | (Inl e, s1) \<Rightarrow> task_run max_retries retry_delay name run (emit (Delay retry_delay) s1))"

definition query_task ::
  "environ \<Rightarrow> 'v remote \<Rightarrow> string \<Rightarrow> real list \<Rightarrow> string \<Rightarrow> string
    \<Rightarrow> run_state \<Rightarrow> (error + 'v product list) \<times> run_state" where
  "query_task env r product_type bbox start_date end_date =
     task_run 3 5 ''query'' (query env r product_type bbox start_date end_date)"







section \<open>A concrete world for examples\<close>

text \<open>
  The engine's own events in a log, and the engine's events of a task that ran
  \<open>k + 1\<close> times: each run after the first comes after a delay.
\<close>

definition engine_events :: "event list \<Rightarrow> event list" where
  "engine_events es = filter (\<lambda>e. event_provider e = None) es"

fun schedule :: "string \<Rightarrow> nat \<Rightarrow> nat \<Rightarrow> event list" where
  "schedule name d 0 = [TaskRun name]"
| "schedule name d (Suc k) = TaskRun name # Delay d # schedule name d k"

definition demo_env :: environ where
  "demo_env =
     [''DHUS_USER'' \<mapsto> ''u1'', ''DHUS_PASSWORD'' \<mapsto> ''p1'',
      ''LANDSATXPLORE_USERNAME'' \<mapsto> ''u2'', ''LANDSATXPLORE_PASSWORD'' \<mapsto> ''p2'']"

definition sentinel_record :: "string product" where
  "sentinel_record = [''uuid'' \<mapsto> ''s2a'', ''title'' \<mapsto> ''S2A_MSIL1C'']"

definition landsat_record :: "string product" where
  "landsat_record = [''entity_id'' \<mapsto> ''lc8'']"

definition demo_remote :: "string remote" where
  "demo_remote =
     \<lparr>usgs_login = (\<lambda>u p. None),
      usgs_search = (\<lambda>d b sd ed. Inr [landsat_record]),
      ee_login = (\<lambda>u p. None),
      ee_download = (\<lambda>i dir. Inr (dir @ ''/'' @ i)),
      sentinel_query = (\<lambda>c g d t. Inr [(''s2a'', sentinel_record)]),
      sentinel_download = (\<lambda>c i dir. Inr (dir @ ''/'' @ i))\<rparr>"

definition down_remote :: "string remote" where
  "down_remote =
     demo_remote
       \<lparr>usgs_search := (\<lambda>d b sd ed. Inl (RemoteError ''search failed'')),
        sentinel_query := (\<lambda>c g d t. Inl (RemoteError ''query failed''))\<rparr>"

definition athens :: "real list" where
  "athens = [23.5, 37.7, 24, 38.2]"

definition demo_client :: CopernicusApi where
  "demo_client = \<lparr>api = SentinelAPI ''u1'' ''p1'' ''https://scihub.copernicus.eu/dhus'' 0\<rparr>"

definition unknown_record :: "string product" where
  "unknown_record = [''id'' \<mapsto> ''x1'']"

definition both_record :: "string product" where
  "both_record = [''uuid'' \<mapsto> ''s2a'', ''title'' \<mapsto> ''S2A_MSIL1C'', ''entity_id'' \<mapsto> ''lc8'']"

definition broken_remote :: "string remote" where
  "broken_remote =
     demo_remote
       \<lparr>ee_download := (\<lambda>i dir. Inl (RemoteError ''download failed'')),
        sentinel_download := (\<lambda>c i dir. Inl (RemoteError ''download failed''))\<rparr>"

definition demo_ee :: EarthExplorerApi where
  "demo_ee = \<lparr>username = ''u2'', password = ''p2''\<rparr>"

definition after_sentinel :: run_state where
  "after_sentinel =
     \<lparr>events = [SessionOpen Copernicus 0, Request Copernicus 0 ''download''],
      next_session = 1\<rparr>"


section \<open>The provider clients\<close>

text \<open>The definitions of the examples, and of the code, for evaluation.\<close>

lemmas world_defs =
  demo_env_def demo_remote_def broken_remote_def down_remote_def start_def athens_def
  sentinel_record_def landsat_record_def unknown_record_def both_record_def demo_client_def
  demo_ee_def

lemmas code_defs =
  query_def download_product_def download_all_def
  CopernicusApi_init_def CopernicusApi_query_def CopernicusApi_download_def
  EarthExplorerApi_init_def EarthExplorerApi_query_def EarthExplorerApi_download_def
  bbox_to_wkt_def ordered_dict_to_list_def truthy_def new_session_def emit_def added_def Let_def


subsection \<open>Credentials\<close>

text \<open>
  C8. Constructing either client fails with the assertion error when one of its two
  environment variables is absent or empty, and then nothing was done to the outside
  world (the state is returned unchanged); when both are set and non-empty the
  construction succeeds with these credentials. The Copernicus constructor then creates
  the session object of the client.
\<close>

theorem construction_checks_credentials:
  "(env ''LANDSATXPLORE_USERNAME'' = None \<or> env ''LANDSATXPLORE_USERNAME'' = Some []
      \<or> env ''LANDSATXPLORE_PASSWORD'' = None \<or> env ''LANDSATXPLORE_PASSWORD'' = Some []
     \<longrightarrow> (\<exists>m. EarthExplorerApi_init env = Inl (AssertionError m)))
   \<and> (env ''LANDSATXPLORE_USERNAME'' = Some u \<and> u \<noteq> []
        \<and> env ''LANDSATXPLORE_PASSWORD'' = Some p \<and> p \<noteq> []
     \<longrightarrow> EarthExplorerApi_init env = Inr \<lparr>username = u, password = p\<rparr>)
   \<and> (env ''DHUS_USER'' = None \<or> env ''DHUS_USER'' = Some []
      \<or> env ''DHUS_PASSWORD'' = None \<or> env ''DHUS_PASSWORD'' = Some []
     \<longrightarrow> (\<exists>m. CopernicusApi_init env s = (Inl (AssertionError m), s)))
   \<and> (env ''DHUS_USER'' = Some u \<and> u \<noteq> [] \<and> env ''DHUS_PASSWORD'' = Some p \<and> p \<noteq> []
     \<longrightarrow> (\<exists>a. fst (CopernicusApi_init env s) = Inr a \<and> credentials (api a) = (u, p)
            \<and> added s (snd (CopernicusApi_init env s)) = [SessionOpen Copernicus (next_session s)]))"
  by (auto simp: EarthExplorerApi_init_def CopernicusApi_init_def truthy_def Let_def
        new_session_def added_def)

theorem construction_checks_credentials_witness:
  "(\<exists>m. EarthExplorerApi_init Map.empty = Inl (AssertionError m))
   \<and> (\<exists>m. CopernicusApi_init Map.empty start = (Inl (AssertionError m), start))
   \<and> (\<exists>m. EarthExplorerApi_init (demo_env(''LANDSATXPLORE_PASSWORD'' \<mapsto> []))
            = Inl (AssertionError m))
   \<and> demo_env ''LANDSATXPLORE_USERNAME'' = Some ''u2''
   \<and> demo_env ''LANDSATXPLORE_PASSWORD'' = Some ''p2''
   \<and> EarthExplorerApi_init demo_env = Inr \<lparr>username = ''u2'', password = ''p2''\<rparr>
   \<and> demo_env ''DHUS_USER'' = Some ''u1'' \<and> demo_env ''DHUS_PASSWORD'' = Some ''p1''
   \<and> (\<exists>a. fst (CopernicusApi_init demo_env start) = Inr a
          \<and> credentials (api a) = (''u1'', ''p1''))"
proof -
  have e: "demo_env ''LANDSATXPLORE_USERNAME'' = Some ''u2''"
      "demo_env ''LANDSATXPLORE_PASSWORD'' = Some ''p2''"
      "demo_env ''DHUS_USER'' = Some ''u1''" "demo_env ''DHUS_PASSWORD'' = Some ''p1''"
    by (simp_all add: demo_env_def)
  have a: "\<exists>m. EarthExplorerApi_init Map.empty = Inl (AssertionError m)"
    using construction_checks_credentials [of Map.empty] by simp
  have b: "\<exists>m. CopernicusApi_init Map.empty start = (Inl (AssertionError m), start)"
    using construction_checks_credentials [of Map.empty _ _ start] by simp
  have c: "\<exists>m. EarthExplorerApi_init (demo_env(''LANDSATXPLORE_PASSWORD'' \<mapsto> []))
             = Inl (AssertionError m)"
    using construction_checks_credentials [of "demo_env(''LANDSATXPLORE_PASSWORD'' \<mapsto> [])"]
    by simp
  have d: "EarthExplorerApi_init demo_env = Inr \<lparr>username = ''u2'', password = ''p2''\<rparr>"
    using construction_checks_credentials [of demo_env "''u2''" "''p2''"] e by simp
  have f: "\<exists>a. fst (CopernicusApi_init demo_env start) = Inr a
             \<and> credentials (api a) = (''u1'', ''p1'')"
    using construction_checks_credentials [of demo_env "''u1''" "''p1''" start] e by auto
  from a b c d e f show ?thesis by blast
qed

subsection \<open>The geometry of a bounding box\<close>

text \<open>
  C2. On the bounding box of the flow's own parameters, (23.5, 37.7, 24, 38.2) read as
  (minLon, minLat, maxLon, maxLat), \<^verbatim>\<open>bbox_to_wkt\<close> builds the two points
  (minLon, maxLon) and (minLat, maxLat): none of the four corners of the box is a point
  of the geometry.
\<close>

theorem bbox_to_wkt_pairs_wrong_coordinates:
  "\<exists>g. bbox_to_wkt [23.5, 37.7, 24, 38.2] = Inr g
     \<and> points g = [(23.5, 24), (37.7, 38.2)]
     \<and> set (points g) \<inter> {(23.5, 37.7), (23.5, 38.2), (24, 37.7), (24, 38.2)} = {}"
  by (simp add: bbox_to_wkt_def points_def)

subsection \<open>From the response mapping to the list of records\<close>

lemma nth_value_of_key:
  "distinct (map fst d) \<Longrightarrow> i < length d \<Longrightarrow> map_of d (map fst d ! i) = Some (map snd d ! i)"
  by (metis length_map map_of_zip_nth zip_map_fst_snd)

lemma CopernicusApi_query_result:
  "fst (CopernicusApi_query r self pt bbox sd ed s) = Inr rs \<Longrightarrow>
     \<exists>wkt resp. bbox_to_wkt bbox = Inr wkt
        \<and> sentinel_query r (credentials (api self)) wkt (sd, ed) pt = Inr resp
        \<and> rs = ordered_dict_to_list resp"
  by (auto simp: CopernicusApi_query_def Let_def split: sum.splits)

text \<open>
  C10. \<^verbatim>\<open>ordered_dict_to_list\<close> returns as many elements as the dictionary has keys,
  the i-th element being the value of the i-th key (the keys of a dictionary are
  distinct); so a successful \<^verbatim>\<open>CopernicusApi.query\<close> returns the values of the
  provider's response, one record per entry.
\<close>

theorem ordered_dict_to_list_values:
  "length (ordered_dict_to_list d) = length (map fst d)
   \<and> (distinct (map fst d) \<longrightarrow>
        (\<forall>i < length d. map_of d (map fst d ! i) = Some (ordered_dict_to_list d ! i)))
   \<and> (\<forall>rs. fst (CopernicusApi_query r self pt bbox sd ed s) = Inr rs \<longrightarrow>
        (\<exists>wkt resp. bbox_to_wkt bbox = Inr wkt
           \<and> sentinel_query r (credentials (api self)) wkt (sd, ed) pt = Inr resp
           \<and> rs = ordered_dict_to_list resp \<and> length rs = length resp))"
proof (intro conjI allI impI)
  show "length (ordered_dict_to_list d) = length (map fst d)"
    by (simp add: ordered_dict_to_list_def)
next
  fix i assume "distinct (map fst d)" "i < length d"
  then show "map_of d (map fst d ! i) = Some (ordered_dict_to_list d ! i)"
    unfolding ordered_dict_to_list_def by (rule nth_value_of_key)
next
  fix rs assume "fst (CopernicusApi_query r self pt bbox sd ed s) = Inr rs"
  from CopernicusApi_query_result [OF this]
  show "\<exists>wkt resp. bbox_to_wkt bbox = Inr wkt
           \<and> sentinel_query r (credentials (api self)) wkt (sd, ed) pt = Inr resp
           \<and> rs = ordered_dict_to_list resp \<and> length rs = length resp"
    by (auto simp: ordered_dict_to_list_def)
qed

theorem ordered_dict_to_list_values_witness:
  "distinct (map fst [(''a'', 10::nat), (''b'', 20)])
   \<and> length (ordered_dict_to_list [(''a'', 10::nat), (''b'', 20)]) = 2
   \<and> map_of [(''a'', 10::nat), (''b'', 20)] ''b''
        = Some (ordered_dict_to_list [(''a'', 10::nat), (''b'', 20)] ! 1)
   \<and> fst (CopernicusApi_query demo_remote demo_client ''S2MSI1C'' athens ''20210112''
            ''20210114'' start) = Inr [sentinel_record]
   \<and> (\<exists>wkt resp. bbox_to_wkt athens = Inr wkt
         \<and> sentinel_query demo_remote (credentials (api demo_client)) wkt
              (''20210112'', ''20210114'') ''S2MSI1C'' = Inr resp
         \<and> [sentinel_record] = ordered_dict_to_list resp \<and> length resp = 1)"
proof -
  let ?d = "[(''a'', 10::nat), (''b'', 20)]"
  note t = ordered_dict_to_list_values [of ?d demo_remote demo_client "''S2MSI1C''" athens
      "''20210112''" "''20210114''" start]
  have h1: "distinct (map fst ?d)" by simp
  have h2: "fst (CopernicusApi_query demo_remote demo_client ''S2MSI1C'' athens ''20210112''
      ''20210114'' start) = Inr [sentinel_record]"
    by (simp add: CopernicusApi_query_def bbox_to_wkt_def athens_def demo_remote_def
        ordered_dict_to_list_def Let_def)
  from t have a: "length (ordered_dict_to_list ?d) = 2" by simp
  from t h1 have q: "\<forall>i < length ?d. map_of ?d (map fst ?d ! i) = Some (ordered_dict_to_list ?d ! i)"
    by blast
  have "(1::nat) < length ?d" by simp
  with q have "map_of ?d (map fst ?d ! 1) = Some (ordered_dict_to_list ?d ! 1)" by blast
  then have b: "map_of ?d ''b'' = Some (ordered_dict_to_list ?d ! 1)" by simp
  from t h2 have c: "\<exists>wkt resp. bbox_to_wkt athens = Inr wkt
         \<and> sentinel_query demo_remote (credentials (api demo_client)) wkt
              (''20210112'', ''20210114'') ''S2MSI1C'' = Inr resp
         \<and> [sentinel_record] = ordered_dict_to_list resp \<and> length resp = 1"
    by auto
  from h1 a b h2 c show ?thesis by blast
qed

section \<open>Routing\<close>

subsection \<open>Every call only adds events, and only of its own provider\<close>

lemma added_append: "events s' = events s @ ext \<Longrightarrow> added s s' = ext"
  by (simp add: added_def)

lemma CopernicusApi_init_events:
  "\<exists>ext. events (snd (CopernicusApi_init env s)) = events s @ ext
      \<and> (\<forall>e \<in> set ext. event_provider e = Some Copernicus)"
  by (simp add: CopernicusApi_init_def Let_def new_session_def)

lemma CopernicusApi_query_events:
  "\<exists>ext. events (snd (CopernicusApi_query r a pt bbox sd ed s)) = events s @ ext
      \<and> (\<forall>e \<in> set ext. event_provider e = Some Copernicus)"
  by (simp add: CopernicusApi_query_def Let_def emit_def split: sum.splits)

lemma CopernicusApi_download_events:
  "\<exists>ext. events (snd (CopernicusApi_download r a p dir s)) = events s @ ext
      \<and> (\<forall>e \<in> set ext. event_provider e = Some Copernicus)"
  by (simp add: CopernicusApi_download_def Let_def emit_def split: sum.splits option.splits)

lemma EarthExplorerApi_query_events:
  "\<exists>ext. events (snd (EarthExplorerApi_query r a pt bbox sd ed s)) = events s @ ext
      \<and> (\<forall>e \<in> set ext. event_provider e = Some EarthExplorer)"
  by (simp add: EarthExplorerApi_query_def Let_def emit_def new_session_def
      split: sum.splits option.splits)

lemma EarthExplorerApi_download_events:
  "\<exists>ext. events (snd (EarthExplorerApi_download r a p dir s)) = events s @ ext
      \<and> (\<forall>e \<in> set ext. event_provider e = Some EarthExplorer)"
  by (simp add: EarthExplorerApi_download_def Let_def emit_def new_session_def
      split: sum.splits option.splits)

lemma query_S2MSI1C_events:
  "\<exists>ext. events (snd (query env r ''S2MSI1C'' bbox sd ed s)) = events s @ ext
      \<and> (\<forall>e \<in> set ext. event_provider e = Some Copernicus)"
proof -
  obtain x s1 where i: "CopernicusApi_init env s = (x, s1)" by (cases "CopernicusApi_init env s")
  from CopernicusApi_init_events [of env s] i obtain ext1 where
    e1: "events s1 = events s @ ext1" "\<forall>e \<in> set ext1. event_provider e = Some Copernicus"
    by auto
  show ?thesis
  proof (cases x)
    case (Inl e)
    with i e1 show ?thesis by (simp add: query_def)
  next
    case (Inr a)
    from CopernicusApi_query_events [of r a "''S2MSI1C''" bbox sd ed s1] obtain ext2 where
      e2: "events (snd (CopernicusApi_query r a ''S2MSI1C'' bbox sd ed s1)) = events s1 @ ext2"
        "\<forall>e \<in> set ext2. event_provider e = Some Copernicus"
      by auto
    with e1 have "events (snd (CopernicusApi_query r a ''S2MSI1C'' bbox sd ed s1)) = events s @ (ext1 @ ext2)
       \<and> (\<forall>e \<in> set (ext1 @ ext2). event_provider e = Some Copernicus)" by auto
    with i Inr show ?thesis by (simp add: query_def)
  qed
qed

lemma query_landsat_events:
  "\<exists>ext. events (snd (query env r ''landsat_8_c1'' bbox sd ed s)) = events s @ ext
      \<and> (\<forall>e \<in> set ext. event_provider e = Some EarthExplorer)"
  using EarthExplorerApi_query_events [of r _ "''landsat_8_c1''" bbox sd ed s]
  by (simp add: query_def split: sum.splits)

subsection \<open>Routing a product type to its query\<close>

text \<open>
  C7. \<^verbatim>\<open>query\<close> with product type S2MSI1C constructs the Copernicus client and runs
  its query, and every event it adds is a Copernicus event; with landsat_8_c1 it
  constructs the EarthExplorer client and runs its query, and every event it adds is
  an EarthExplorer event; with any other product type it raises the ValueError and
  leaves the state as it was: no client was constructed and no provider contacted.
\<close>

theorem query_routing:
  "query env r ''S2MSI1C'' bbox sd ed s =
      (case CopernicusApi_init env s of
         (Inl e, s1) \<Rightarrow> (Inl e, s1)
       | (Inr a, s1) \<Rightarrow> CopernicusApi_query r a ''S2MSI1C'' bbox sd ed s1)
   \<and> (\<forall>e \<in> set (added s (snd (query env r ''S2MSI1C'' bbox sd ed s))).
         event_provider e = Some Copernicus)
   \<and> query env r ''landsat_8_c1'' bbox sd ed s =
      (case EarthExplorerApi_init env of
         Inl e \<Rightarrow> (Inl e, s)
       | Inr a \<Rightarrow> EarthExplorerApi_query r a ''landsat_8_c1'' bbox sd ed s)
   \<and> (\<forall>e \<in> set (added s (snd (query env r ''landsat_8_c1'' bbox sd ed s))).
         event_provider e = Some EarthExplorer)
   \<and> (product_type \<noteq> ''S2MSI1C'' \<and> product_type \<noteq> ''landsat_8_c1'' \<longrightarrow>
        query env r product_type bbox sd ed s =
          (Inl (ValueError ''Product type value is not currently supported.''), s))"
proof (intro conjI)
  show "\<forall>e \<in> set (added s (snd (query env r ''S2MSI1C'' bbox sd ed s))).
         event_provider e = Some Copernicus"
    using query_S2MSI1C_events [of env r bbox sd ed s] by (auto simp: added_def)
  show "\<forall>e \<in> set (added s (snd (query env r ''landsat_8_c1'' bbox sd ed s))).
         event_provider e = Some EarthExplorer"
    using query_landsat_events [of env r bbox sd ed s] by (auto simp: added_def)
qed (simp_all add: query_def)


theorem query_routing_witness:
  "added start (snd (query demo_env demo_remote ''S2MSI1C'' athens ''20210112'' ''20210114'' start))
     = [SessionOpen Copernicus 0, Request Copernicus 0 ''query'']
   \<and> list_all (\<lambda>e. event_provider e = Some Copernicus)
        (added start (snd (query demo_env demo_remote ''S2MSI1C'' athens ''20210112'' ''20210114'' start)))
   \<and> added start (snd (query demo_env demo_remote ''landsat_8_c1'' athens ''20210112'' ''20210114'' start))
     = [SessionOpen EarthExplorer 0, Request EarthExplorer 0 ''search'', SessionClose EarthExplorer 0]
   \<and> list_all (\<lambda>e. event_provider e = Some EarthExplorer)
        (added start (snd (query demo_env demo_remote ''landsat_8_c1'' athens ''20210112'' ''20210114'' start)))
   \<and> ''MOD09GA'' \<noteq> ''S2MSI1C'' \<and> ''MOD09GA'' \<noteq> ''landsat_8_c1''
   \<and> query demo_env demo_remote ''MOD09GA'' athens ''20210112'' ''20210114'' start
       = (Inl (ValueError ''Product type value is not currently supported.''), start)"
proof -
  note t = query_routing [of demo_env demo_remote athens "''20210112''" "''20210114''" start
      "''MOD09GA''"]
  have a: "added start (snd (query demo_env demo_remote ''S2MSI1C'' athens ''20210112'' ''20210114'' start))
     = [SessionOpen Copernicus 0, Request Copernicus 0 ''query'']"
    by (simp add: code_defs world_defs)
  have b: "added start (snd (query demo_env demo_remote ''landsat_8_c1'' athens ''20210112'' ''20210114'' start))
     = [SessionOpen EarthExplorer 0, Request EarthExplorer 0 ''search'', SessionClose EarthExplorer 0]"
    by (simp add: code_defs world_defs)
  have c: "''MOD09GA'' \<noteq> ''S2MSI1C'' \<and> ''MOD09GA'' \<noteq> ''landsat_8_c1''" by simp
  from t have a': "list_all (\<lambda>e. event_provider e = Some Copernicus)
        (added start (snd (query demo_env demo_remote ''S2MSI1C'' athens ''20210112'' ''20210114'' start)))"
    unfolding list_all_iff by blast
  from t have b': "list_all (\<lambda>e. event_provider e = Some EarthExplorer)
        (added start (snd (query demo_env demo_remote ''landsat_8_c1'' athens ''20210112'' ''20210114'' start)))"
    unfolding list_all_iff by blast
  from t c have d: "query demo_env demo_remote ''MOD09GA'' athens ''20210112'' ''20210114'' start
       = (Inl (ValueError ''Product type value is not currently supported.''), start)"
    by blast
  from a a' b b' c d show ?thesis by blast
qed

subsection \<open>Routing a record to its download\<close>

lemma download_product_uuid_events:
  assumes "product ''uuid'' \<noteq> None"
  shows "\<exists>ext. events (snd (download_product env r product s)) = events s @ ext
      \<and> (\<forall>e \<in> set ext. event_provider e = Some Copernicus)"
proof -
  obtain x s1 where i: "CopernicusApi_init env s = (x, s1)" by (cases "CopernicusApi_init env s")
  from CopernicusApi_init_events [of env s] i obtain ext1 where
    e1: "events s1 = events s @ ext1" "\<forall>e \<in> set ext1. event_provider e = Some Copernicus"
    by auto
  show ?thesis
  proof (cases x)
    case (Inl e)
    with i e1 assms show ?thesis by (simp add: download_product_def)
  next
    case (Inr a)
    from CopernicusApi_download_events [of r a product "''../satdata/sentinel''" s1]
    obtain ext2 where
      e2: "events (snd (CopernicusApi_download r a product ''../satdata/sentinel'' s1))
             = events s1 @ ext2"
        "\<forall>e \<in> set ext2. event_provider e = Some Copernicus"
      by auto
    with e1 have "events (snd (CopernicusApi_download r a product ''../satdata/sentinel'' s1))
         = events s @ (ext1 @ ext2)
       \<and> (\<forall>e \<in> set (ext1 @ ext2). event_provider e = Some Copernicus)" by auto
    then have "\<exists>ext. events (snd (CopernicusApi_download r a product ''../satdata/sentinel'' s1))
         = events s @ ext \<and> (\<forall>e \<in> set ext. event_provider e = Some Copernicus)" by blast
    with i Inr assms show ?thesis by (simp add: download_product_def)
  qed
qed

lemma download_product_entity_id_events:
  assumes "product ''uuid'' = None" "product ''entity_id'' \<noteq> None"
  shows "\<exists>ext. events (snd (download_product env r product s)) = events s @ ext
      \<and> (\<forall>e \<in> set ext. event_provider e = Some EarthExplorer)"
  using EarthExplorerApi_download_events [of r _ product "''../satdata/landsat''" s] assms
  by (simp add: download_product_def split: sum.splits)

text \<open>
  C4, as the code has it. A record with the key uuid (with or without entity_id) is
  downloaded by the Copernicus client into ../satdata/sentinel; a record without uuid
  and with entity_id by the EarthExplorer client into ../satdata/landsat; a record with
  neither key raises the ValueError, with nothing done.
\<close>

theorem download_routing_by_first_matching_key:
  "(product ''uuid'' \<noteq> None \<longrightarrow>
       download_product env r product s =
         (case CopernicusApi_init env s of
            (Inl e, s1) \<Rightarrow> (Inl e, s1)
          | (Inr a, s1) \<Rightarrow> CopernicusApi_download r a product ''../satdata/sentinel'' s1)
       \<and> (\<forall>e \<in> set (added s (snd (download_product env r product s))).
             event_provider e = Some Copernicus))
   \<and> (product ''uuid'' = None \<and> product ''entity_id'' \<noteq> None \<longrightarrow>
       download_product env r product s =
         (case EarthExplorerApi_init env of
            Inl e \<Rightarrow> (Inl e, s)
          | Inr a \<Rightarrow> EarthExplorerApi_download r a product ''../satdata/landsat'' s)
       \<and> (\<forall>e \<in> set (added s (snd (download_product env r product s))).
             event_provider e = Some EarthExplorer))
   \<and> (product ''uuid'' = None \<and> product ''entity_id'' = None \<longrightarrow>
       download_product env r product s = (Inl (ValueError ''Unknown product type''), s))"
proof (intro conjI impI)
  assume u: "product ''uuid'' \<noteq> None"
  then show "download_product env r product s =
         (case CopernicusApi_init env s of
            (Inl e, s1) \<Rightarrow> (Inl e, s1)
          | (Inr a, s1) \<Rightarrow> CopernicusApi_download r a product ''../satdata/sentinel'' s1)"
    by (simp add: download_product_def)
  from u download_product_uuid_events [of product env r s]
  show "\<forall>e \<in> set (added s (snd (download_product env r product s))).
             event_provider e = Some Copernicus"
    by (auto simp: added_def)
next
  assume u: "product ''uuid'' = None \<and> product ''entity_id'' \<noteq> None"
  then show "download_product env r product s =
         (case EarthExplorerApi_init env of
            Inl e \<Rightarrow> (Inl e, s)
          | Inr a \<Rightarrow> EarthExplorerApi_download r a product ''../satdata/landsat'' s)"
    by (simp add: download_product_def)
  from u download_product_entity_id_events [of product env r s]
  show "\<forall>e \<in> set (added s (snd (download_product env r product s))).
             event_provider e = Some EarthExplorer"
    by (auto simp: added_def)
next
  assume "product ''uuid'' = None \<and> product ''entity_id'' = None"
  then show "download_product env r product s = (Inl (ValueError ''Unknown product type''), s)"
    by (simp add: download_product_def)
qed

theorem download_routing_by_first_matching_key_witness:
  "sentinel_record ''uuid'' \<noteq> None
   \<and> download_product demo_env demo_remote sentinel_record start
       = (Inr ''../satdata/sentinel/s2a'',
          \<lparr>events = [SessionOpen Copernicus 0, Request Copernicus 0 ''download''],
           next_session = 1\<rparr>)
   \<and> list_all (\<lambda>e. event_provider e = Some Copernicus)
        (added start (snd (download_product demo_env demo_remote sentinel_record start)))
   \<and> landsat_record ''uuid'' = None \<and> landsat_record ''entity_id'' \<noteq> None
   \<and> download_product demo_env demo_remote landsat_record start
       = (Inr ''../satdata/landsat/lc8'',
          \<lparr>events = [SessionOpen EarthExplorer 0, Request EarthExplorer 0 ''download'',
                     SessionClose EarthExplorer 0],
           next_session = 1\<rparr>)
   \<and> list_all (\<lambda>e. event_provider e = Some EarthExplorer)
        (added start (snd (download_product demo_env demo_remote landsat_record start)))
   \<and> unknown_record ''uuid'' = None \<and> unknown_record ''entity_id'' = None
   \<and> download_product demo_env demo_remote unknown_record start
       = (Inl (ValueError ''Unknown product type''), start)"
proof -
  note t1 = download_routing_by_first_matching_key [of sentinel_record demo_env demo_remote start]
  note t2 = download_routing_by_first_matching_key [of landsat_record demo_env demo_remote start]
  note t3 = download_routing_by_first_matching_key [of unknown_record demo_env demo_remote start]
  have h1: "sentinel_record ''uuid'' \<noteq> None" by (simp add: world_defs)
  have h2: "landsat_record ''uuid'' = None \<and> landsat_record ''entity_id'' \<noteq> None"
    by (simp add: world_defs)
  have h3: "unknown_record ''uuid'' = None \<and> unknown_record ''entity_id'' = None"
    by (simp add: world_defs)
  from t1 h1 have a: "download_product demo_env demo_remote sentinel_record start
       = (Inr ''../satdata/sentinel/s2a'',
          \<lparr>events = [SessionOpen Copernicus 0, Request Copernicus 0 ''download''],
           next_session = 1\<rparr>)"
    by (simp add: code_defs world_defs)
  from t1 h1 have a': "list_all (\<lambda>e. event_provider e = Some Copernicus)
        (added start (snd (download_product demo_env demo_remote sentinel_record start)))"
    unfolding list_all_iff by blast
  from t2 h2 have b: "download_product demo_env demo_remote landsat_record start
       = (Inr ''../satdata/landsat/lc8'',
          \<lparr>events = [SessionOpen EarthExplorer 0, Request EarthExplorer 0 ''download'',
                     SessionClose EarthExplorer 0],
           next_session = 1\<rparr>)"
    by (simp add: code_defs world_defs)
  from t2 h2 have b': "list_all (\<lambda>e. event_provider e = Some EarthExplorer)
        (added start (snd (download_product demo_env demo_remote landsat_record start)))"
    unfolding list_all_iff by blast
  from t3 h3 have c: "download_product demo_env demo_remote unknown_record start
       = (Inl (ValueError ''Unknown product type''), start)"
    by blast
  from h1 a a' h2 b b' h3 c show ?thesis by blast
qed

text \<open>
  C4 as stated fails: a record matching both discriminators raises nothing, it is
  downloaded by the Copernicus client.
\<close>

theorem record_with_both_keys_goes_to_copernicus:
  "both_record ''uuid'' \<noteq> None \<and> both_record ''entity_id'' \<noteq> None
   \<and> download_product demo_env demo_remote both_record start =
       (Inr ''../satdata/sentinel/s2a'',
        \<lparr>events = [SessionOpen Copernicus 0, Request Copernicus 0 ''download''],
         next_session = 1\<rparr>)"
  by (simp add: both_record_def download_product_def demo_env_def demo_remote_def start_def
      CopernicusApi_init_def CopernicusApi_download_def truthy_def new_session_def emit_def
      Let_def)

section \<open>The download task\<close>

lemma download_loop_length:
  "fst (download_loop env r acc ps s) = Inr dirs \<Longrightarrow> length dirs = length acc + length ps"
proof (induction ps arbitrary: acc s)
  case Nil
  then show ?case by simp
next
  case (Cons p ps)
  obtain x s1 where d: "download_product env r p s = (x, s1)"
    by (cases "download_product env r p s")
  show ?case
  proof (cases x)
    case (Inl e)
    with d Cons.prems show ?thesis by simp
  next
    case (Inr path)
    with d Cons.prems have "fst (download_loop env r (acc @ [path]) ps s1) = Inr dirs" by simp
    from Cons.IH [OF this] show ?thesis by simp
  qed
qed

lemma download_loop_abort:
  "p \<in> set ps \<Longrightarrow> \<forall>s'. \<exists>e. fst (download_product env r p s') = Inl e
     \<Longrightarrow> \<exists>e. fst (download_loop env r acc ps s) = Inl e"
proof (induction ps arbitrary: acc s)
  case Nil
  then show ?case by simp
next
  case (Cons q ps)
  obtain x s1 where d: "download_product env r q s = (x, s1)"
    by (cases "download_product env r q s")
  show ?case
  proof (cases x)
    case (Inl e)
    with d show ?thesis by simp
  next
    case (Inr path)
    with d Cons.prems have "p \<noteq> q" by (metis fst_conv sum.distinct(1))
    with Cons.prems have "p \<in> set ps" by simp
    from Cons.IH [OF this Cons.prems(2)] d Inr show ?thesis by simp
  qed
qed

lemma download_loop_append:
  "download_loop env r acc (pre @ rest) s =
     (case download_loop env r acc pre s of
        (Inl e, s1) \<Rightarrow> (Inl e, s1)
      | (Inr dirs, s1) \<Rightarrow> download_loop env r dirs rest s1)"
proof (induction pre arbitrary: acc s)
  case Nil
  show ?case by simp
next
  case (Cons p pre)
  obtain x s1 where d: "download_product env r p s = (x, s1)"
    by (cases "download_product env r p s")
  show ?case
  proof (cases x)
    case (Inl e)
    with d show ?thesis by simp
  next
    case (Inr path)
    with d Cons.IH [of "acc @ [path]" s1] show ?thesis by simp
  qed
qed

lemma download_loop_stops_at_first_failure:
  assumes "download_loop env r acc pre s = (Inr dirs, s1)"
    and "download_product env r p s1 = (Inl e, s2)"
  shows "download_loop env r acc (pre @ p # post) s = (Inl e, s2)"
  using assms by (simp add: download_loop_append)

lemma download_loop_failure_split:
  "download_loop env r acc ps s = (Inl e, s2) \<Longrightarrow>
     \<exists>pre p post dirs s1. ps = pre @ p # post
        \<and> download_loop env r acc pre s = (Inr dirs, s1)
        \<and> download_product env r p s1 = (Inl e, s2)"
proof (induction ps arbitrary: acc s)
  case Nil
  then show ?case by simp
next
  case (Cons q ps)
  obtain x s' where d: "download_product env r q s = (x, s')"
    by (cases "download_product env r q s")
  show ?case
  proof (cases x)
    case (Inl e')
    with d Cons.prems have "download_product env r q s = (Inl e, s2)" by simp
    then have "q # ps = [] @ q # ps \<and> download_loop env r acc [] s = (Inr acc, s)
        \<and> download_product env r q s = (Inl e, s2)"
      by simp
    then show ?thesis by blast
  next
    case (Inr path)
    with d Cons.prems have "download_loop env r (acc @ [path]) ps s' = (Inl e, s2)" by simp
    from Cons.IH [OF this] obtain pre p post dirs s1 where
      h: "ps = pre @ p # post" "download_loop env r (acc @ [path]) pre s' = (Inr dirs, s1)"
        "download_product env r p s1 = (Inl e, s2)"
      by blast
    from h(1,2) d Inr have "q # ps = (q # pre) @ p # post
        \<and> download_loop env r acc (q # pre) s = (Inr dirs, s1)"
      by simp
    with h(3) show ?thesis by blast
  qed
qed

lemma download_loop_results:
  "fst (download_loop env r acc ps s) = Inr dirs \<Longrightarrow>
     \<exists>ds. dirs = acc @ ds
        \<and> list_all2 (\<lambda>p d. \<exists>s'. fst (download_product env r p s') = Inr d) ps ds"
proof (induction ps arbitrary: acc s)
  case Nil
  then show ?case by simp
next
  case (Cons p ps)
  obtain x s1 where d: "download_product env r p s = (x, s1)"
    by (cases "download_product env r p s")
  show ?case
  proof (cases x)
    case (Inl e)
    with d Cons.prems show ?thesis by simp
  next
    case (Inr path)
    with d Cons.prems have "fst (download_loop env r (acc @ [path]) ps s1) = Inr dirs" by simp
    from Cons.IH [OF this] obtain ds where
      ds: "dirs = (acc @ [path]) @ ds"
        "list_all2 (\<lambda>p d. \<exists>s'. fst (download_product env r p s') = Inr d) ps ds"
      by blast
    from d Inr have "\<exists>s'. fst (download_product env r p s') = Inr path"
      by (metis fst_conv)
    with ds have "dirs = acc @ (path # ds)
        \<and> list_all2 (\<lambda>p d. \<exists>s'. fst (download_product env r p s') = Inr d) (p # ps) (path # ds)"
      by simp
    then show ?thesis by blast
  qed
qed


text \<open>
  C1, as the code has it. \<^verbatim>\<open>download_all\<close> returns either one path per input record,
  each the result of the loop body on its record, or one exception for the whole batch.
  When the records before a record all succeed and that record fails, its exception is
  the result of the call, with the state that record left: no later record is touched and
  the paths collected so far are lost. Every failed call is of this form. A batch holding
  a record that cannot succeed (in particular one with neither uuid nor entity_id)
  returns no paths.
\<close>

theorem download_all_all_or_nothing:
  "(\<forall>dirs. fst (download_all env r ps s) = Inr dirs \<longrightarrow>
       length dirs = length ps
       \<and> (\<forall>i < length ps. \<exists>s'. fst (download_product env r (ps ! i) s') = Inr (dirs ! i)))
   \<and> (\<forall>e. fst (download_product env r p s) = Inl e \<longrightarrow>
         download_all env r (p # ps) s = (Inl e, snd (download_product env r p s)))
   \<and> (\<forall>dirs s1 e s2.
         download_all env r pre s = (Inr dirs, s1) \<and> download_product env r p s1 = (Inl e, s2)
         \<longrightarrow> download_all env r (pre @ p # post) s = (Inl e, s2))
   \<and> (\<forall>e s2. download_all env r ps s = (Inl e, s2) \<longrightarrow>
         (\<exists>pre' p' post' dirs s1. ps = pre' @ p' # post'
            \<and> download_all env r pre' s = (Inr dirs, s1)
            \<and> download_product env r p' s1 = (Inl e, s2)))
   \<and> (\<forall>q \<in> set ps. (\<forall>s'. \<exists>e. fst (download_product env r q s') = Inl e) \<longrightarrow>
         (\<exists>e. fst (download_all env r ps s) = Inl e))
   \<and> (\<forall>q \<in> set ps. q ''uuid'' = None \<and> q ''entity_id'' = None \<longrightarrow>
         (\<exists>e. fst (download_all env r ps s) = Inl e))"
proof (intro conjI allI ballI impI)
  fix dirs assume a: "fst (download_all env r ps s) = Inr dirs"
  then show "length dirs = length ps"
    using download_loop_length [of env r "[]" ps s dirs] by (simp add: download_all_def)
  from a download_loop_results [of env r "[]" ps s dirs]
  have l: "list_all2 (\<lambda>p d. \<exists>s'. fst (download_product env r p s') = Inr d) ps dirs"
    by (simp add: download_all_def)
  fix i assume "i < length ps"
  with l show "\<exists>s'. fst (download_product env r (ps ! i) s') = Inr (dirs ! i)"
    by (rule list_all2_nthD)
next
  fix e assume "fst (download_product env r p s) = Inl e"
  then show "download_all env r (p # ps) s = (Inl e, snd (download_product env r p s))"
    by (cases "download_product env r p s") (simp add: download_all_def)
next
  fix dirs s1 e s2
  assume "download_all env r pre s = (Inr dirs, s1) \<and> download_product env r p s1 = (Inl e, s2)"
  then show "download_all env r (pre @ p # post) s = (Inl e, s2)"
    unfolding download_all_def by (blast intro: download_loop_stops_at_first_failure)
next
  fix e s2 assume "download_all env r ps s = (Inl e, s2)"
  then show "\<exists>pre' p' post' dirs s1. ps = pre' @ p' # post'
            \<and> download_all env r pre' s = (Inr dirs, s1)
            \<and> download_product env r p' s1 = (Inl e, s2)"
    unfolding download_all_def by (rule download_loop_failure_split)
next
  fix q assume "q \<in> set ps" "\<forall>s'. \<exists>e. fst (download_product env r q s') = Inl e"
  then show "\<exists>e. fst (download_all env r ps s) = Inl e"
    unfolding download_all_def by (rule download_loop_abort)
next
  fix q assume q: "q \<in> set ps" "q ''uuid'' = None \<and> q ''entity_id'' = None"
  then have "\<forall>s'. \<exists>e. fst (download_product env r q s') = Inl e"
    by (simp add: download_product_def)
  with q(1) show "\<exists>e. fst (download_all env r ps s) = Inl e"
    unfolding download_all_def by (rule download_loop_abort)
qed


theorem download_all_all_or_nothing_witness:
  "fst (download_all demo_env demo_remote [landsat_record, sentinel_record] start)
     = Inr [''../satdata/landsat/lc8'', ''../satdata/sentinel/s2a'']
   \<and> length [''../satdata/landsat/lc8'', ''../satdata/sentinel/s2a'']
     = length [landsat_record, sentinel_record]
   \<and> (\<exists>s'. fst (download_product demo_env demo_remote sentinel_record s')
         = Inr ''../satdata/sentinel/s2a'')
   \<and> fst (download_product demo_env broken_remote sentinel_record start)
     = Inl (RemoteError ''download failed'')
   \<and> download_all demo_env broken_remote [sentinel_record, landsat_record] start
     = (Inl (RemoteError ''download failed''),
        snd (download_product demo_env broken_remote sentinel_record start))
   \<and> download_all demo_env demo_remote [sentinel_record] start
     = (Inr [''../satdata/sentinel/s2a''], after_sentinel)
   \<and> download_product demo_env demo_remote unknown_record after_sentinel
     = (Inl (ValueError ''Unknown product type''), after_sentinel)
   \<and> download_all demo_env demo_remote [sentinel_record, unknown_record, landsat_record] start
     = (Inl (ValueError ''Unknown product type''), after_sentinel)
   \<and> (\<exists>pre' p' post' dirs s1.
         [sentinel_record, unknown_record, landsat_record] = pre' @ p' # post'
         \<and> download_all demo_env demo_remote pre' start = (Inr dirs, s1)
         \<and> download_product demo_env demo_remote p' s1
             = (Inl (ValueError ''Unknown product type''), after_sentinel))
   \<and> unknown_record \<in> set [sentinel_record, unknown_record]
   \<and> unknown_record ''uuid'' = None \<and> unknown_record ''entity_id'' = None
   \<and> (\<exists>e. fst (download_all demo_env demo_remote [sentinel_record, unknown_record] start) = Inl e)"
proof -
  note t1 = download_all_all_or_nothing
    [where env = demo_env and r = demo_remote and ps = "[landsat_record, sentinel_record]"
       and s = start]
  note t2 = download_all_all_or_nothing
    [where env = demo_env and r = broken_remote and ps = "[landsat_record]" and s = start
       and p = sentinel_record]
  note t3 = download_all_all_or_nothing
    [where env = demo_env and r = demo_remote and s = start
       and ps = "[sentinel_record, unknown_record, landsat_record]"
       and pre = "[sentinel_record]" and p = unknown_record and post = "[landsat_record]"]
  note t4 = download_all_all_or_nothing
    [where env = demo_env and r = demo_remote and ps = "[sentinel_record, unknown_record]"
       and s = start]
  have h1: "fst (download_all demo_env demo_remote [landsat_record, sentinel_record] start)
     = Inr [''../satdata/landsat/lc8'', ''../satdata/sentinel/s2a'']"
    by (simp add: code_defs world_defs)
  with t1 have a: "length [''../satdata/landsat/lc8'', ''../satdata/sentinel/s2a'']
     = length [landsat_record, sentinel_record]" by blast
  from t1 h1 have "\<forall>i < length [landsat_record, sentinel_record].
      \<exists>s'. fst (download_product demo_env demo_remote ([landsat_record, sentinel_record] ! i) s')
        = Inr ([''../satdata/landsat/lc8'', ''../satdata/sentinel/s2a''] ! i)"
    by blast
  moreover have "(1::nat) < length [landsat_record, sentinel_record]" by simp
  ultimately have "\<exists>s'. fst (download_product demo_env demo_remote
        ([landsat_record, sentinel_record] ! 1) s')
        = Inr ([''../satdata/landsat/lc8'', ''../satdata/sentinel/s2a''] ! 1)"
    by blast
  then have a': "\<exists>s'. fst (download_product demo_env demo_remote sentinel_record s')
         = Inr ''../satdata/sentinel/s2a''"
    by simp
  have h2: "fst (download_product demo_env broken_remote sentinel_record start)
     = Inl (RemoteError ''download failed'')"
    by (simp add: code_defs world_defs)
  with t2 have b: "download_all demo_env broken_remote [sentinel_record, landsat_record] start
     = (Inl (RemoteError ''download failed''),
        snd (download_product demo_env broken_remote sentinel_record start))" by blast
  have h3: "download_all demo_env demo_remote [sentinel_record] start
     = (Inr [''../satdata/sentinel/s2a''], after_sentinel)"
    by (simp add: code_defs world_defs after_sentinel_def)
  have h4: "download_product demo_env demo_remote unknown_record after_sentinel
     = (Inl (ValueError ''Unknown product type''), after_sentinel)"
    by (simp add: code_defs world_defs)
  from t3 have "\<forall>dirs s1 e s2.
         download_all demo_env demo_remote [sentinel_record] start = (Inr dirs, s1)
         \<and> download_product demo_env demo_remote unknown_record s1 = (Inl e, s2)
         \<longrightarrow> download_all demo_env demo_remote
               ([sentinel_record] @ unknown_record # [landsat_record]) start = (Inl e, s2)"
    by blast
  with h3 h4 have "download_all demo_env demo_remote
      ([sentinel_record] @ unknown_record # [landsat_record]) start
     = (Inl (ValueError ''Unknown product type''), after_sentinel)"
    by blast
  then have c:
    "download_all demo_env demo_remote [sentinel_record, unknown_record, landsat_record] start
     = (Inl (ValueError ''Unknown product type''), after_sentinel)"
    by simp
  with t3 have c': "\<exists>pre' p' post' dirs s1.
         [sentinel_record, unknown_record, landsat_record] = pre' @ p' # post'
         \<and> download_all demo_env demo_remote pre' start = (Inr dirs, s1)
         \<and> download_product demo_env demo_remote p' s1
             = (Inl (ValueError ''Unknown product type''), after_sentinel)"
    by blast
  have h5: "unknown_record \<in> set [sentinel_record, unknown_record]" by simp
  have h6: "unknown_record ''uuid'' = None \<and> unknown_record ''entity_id'' = None"
    by (simp add: world_defs)
  from t4 h5 h6 have d:
    "\<exists>e. fst (download_all demo_env demo_remote [sentinel_record, unknown_record] start) = Inl e"
    by blast
  from h1 a a' h2 b h3 h4 c c' h5 h6 d show ?thesis by blast
qed

text \<open>
  C1 as stated fails: an unroutable record, or a failed download, ends the batch with the
  exception; there is no per-item result, and the records after it are not downloaded.
\<close>

theorem download_all_aborts_on_first_failure:
  "download_all demo_env demo_remote [unknown_record, sentinel_record] start
     = (Inl (ValueError ''Unknown product type''), start)
   \<and> download_all demo_env broken_remote [sentinel_record, landsat_record] start
     = (Inl (RemoteError ''download failed''),
        \<lparr>events = [SessionOpen Copernicus 0, Request Copernicus 0 ''download''],
         next_session = 1\<rparr>)"
  by (simp add: download_all_def download_product_def unknown_record_def sentinel_record_def
      landsat_record_def demo_env_def demo_remote_def broken_remote_def start_def
      CopernicusApi_init_def CopernicusApi_download_def truthy_def new_session_def emit_def
      Let_def)

lemma download_product_path:
  assumes "fst (download_product env r p s) = Inr d"
  shows "(p ''uuid'' \<noteq> None \<longrightarrow>
            sentinel_download r (the (env ''DHUS_USER''), the (env ''DHUS_PASSWORD''))
              (the (p ''uuid'')) ''../satdata/sentinel'' = Inr d)
       \<and> (p ''uuid'' = None \<longrightarrow>
            p ''entity_id'' \<noteq> None
            \<and> ee_download r (the (p ''entity_id'')) ''../satdata/landsat'' = Inr d)"
  using assms
  by (auto simp: download_product_def CopernicusApi_init_def CopernicusApi_download_def
      EarthExplorerApi_init_def EarthExplorerApi_download_def new_session_def emit_def Let_def
      split: if_splits option.splits sum.splits prod.splits)

lemma download_loop_paths:
  assumes "\<forall>p \<in> set ps. \<forall>s'. \<exists>d. fst (download_product env r p s') = Inr d"
  shows "\<exists>ds. fst (download_loop env r acc ps s) = Inr (acc @ ds)
            \<and> list_all2 (\<lambda>p d. \<exists>s'. fst (download_product env r p s') = Inr d) ps ds"
  using assms
proof (induction ps arbitrary: acc s)
  case Nil
  then show ?case by simp
next
  case (Cons p ps)
  from Cons.prems have "\<exists>d. fst (download_product env r p s) = Inr d" by simp
  then obtain d where d: "fst (download_product env r p s) = Inr d" by blast
  then obtain s1 where s1: "download_product env r p s = (Inr d, s1)"
    by (cases "download_product env r p s") simp
  from Cons.prems have "\<forall>p \<in> set ps. \<forall>s'. \<exists>d. fst (download_product env r p s') = Inr d"
    by simp
  from Cons.IH [OF this, of "acc @ [d]" s1] obtain ds where
    ds: "fst (download_loop env r (acc @ [d]) ps s1) = Inr ((acc @ [d]) @ ds)"
      "list_all2 (\<lambda>p d. \<exists>s'. fst (download_product env r p s') = Inr d) ps ds"
    by blast
  from d have "\<exists>s'. fst (download_product env r p s') = Inr d" by blast
  with ds s1 have "fst (download_loop env r acc (p # ps) s) = Inr (acc @ (d # ds))
     \<and> list_all2 (\<lambda>p d. \<exists>s'. fst (download_product env r p s') = Inr d) (p # ps) (d # ds)"
    by simp
  then show ?case by blast
qed

text \<open>
  C9. When every record has the key uuid or the key entity_id and the download of every
  record succeeds, \<^verbatim>\<open>download_all\<close> returns one path per record, in input order:
  the i-th path is what the Sentinel download returned for the uuid of the i-th record
  and the directory ../satdata/sentinel when the record has the key uuid, and what the
  EarthExplorer download returned for its entity_id and ../satdata/landsat otherwise.
  The empty list gives the empty list.
\<close>

theorem download_all_paths_in_input_order:
  assumes routable: "\<forall>p \<in> set ps. p ''uuid'' \<noteq> None \<or> p ''entity_id'' \<noteq> None"
    and succeed: "\<forall>p \<in> set ps. \<forall>s'. \<exists>d. fst (download_product env r p s') = Inr d"
  shows "fst (download_all env r [] s) = Inr []
    \<and> (\<exists>dirs. fst (download_all env r ps s) = Inr dirs \<and> length dirs = length ps
        \<and> (\<forall>i < length ps.
             ((ps ! i) ''uuid'' \<noteq> None \<longrightarrow>
                sentinel_download r (the (env ''DHUS_USER''), the (env ''DHUS_PASSWORD''))
                  (the ((ps ! i) ''uuid'')) ''../satdata/sentinel'' = Inr (dirs ! i))
           \<and> ((ps ! i) ''uuid'' = None \<longrightarrow>
                (ps ! i) ''entity_id'' \<noteq> None
                \<and> ee_download r (the ((ps ! i) ''entity_id'')) ''../satdata/landsat''
                    = Inr (dirs ! i))))"
proof -
  from download_loop_paths [OF succeed, of "[]" s] obtain ds where
    ds: "fst (download_all env r ps s) = Inr ds"
      "list_all2 (\<lambda>p d. \<exists>s'. fst (download_product env r p s') = Inr d) ps ds"
    by (auto simp: download_all_def)
  from ds(2) have len: "length ds = length ps" by (simp add: list_all2_lengthD)
  have "\<forall>i < length ps.
             ((ps ! i) ''uuid'' \<noteq> None \<longrightarrow>
                sentinel_download r (the (env ''DHUS_USER''), the (env ''DHUS_PASSWORD''))
                  (the ((ps ! i) ''uuid'')) ''../satdata/sentinel'' = Inr (ds ! i))
           \<and> ((ps ! i) ''uuid'' = None \<longrightarrow>
                (ps ! i) ''entity_id'' \<noteq> None
                \<and> ee_download r (the ((ps ! i) ''entity_id'')) ''../satdata/landsat''
                    = Inr (ds ! i))"
  proof (intro allI impI)
    fix i assume "i < length ps"
    with ds(2) obtain s' where "fst (download_product env r (ps ! i) s') = Inr (ds ! i)"
      by (auto dest: list_all2_nthD)
    from download_product_path [OF this]
    show "((ps ! i) ''uuid'' \<noteq> None \<longrightarrow>
                sentinel_download r (the (env ''DHUS_USER''), the (env ''DHUS_PASSWORD''))
                  (the ((ps ! i) ''uuid'')) ''../satdata/sentinel'' = Inr (ds ! i))
           \<and> ((ps ! i) ''uuid'' = None \<longrightarrow>
                (ps ! i) ''entity_id'' \<noteq> None
                \<and> ee_download r (the ((ps ! i) ''entity_id'')) ''../satdata/landsat''
                    = Inr (ds ! i))" .
  qed
  with ds(1) len show ?thesis by (auto simp: download_all_def)
qed


theorem download_all_paths_in_input_order_witness:
  "fst (download_all demo_env demo_remote [] start) = Inr []
   \<and> fst (download_all demo_env demo_remote [landsat_record, sentinel_record] start)
       = Inr [''../satdata/landsat/lc8'', ''../satdata/sentinel/s2a'']
   \<and> ee_download demo_remote (the (landsat_record ''entity_id'')) ''../satdata/landsat''
       = Inr ''../satdata/landsat/lc8''
   \<and> sentinel_download demo_remote (the (demo_env ''DHUS_USER''), the (demo_env ''DHUS_PASSWORD''))
        (the (sentinel_record ''uuid'')) ''../satdata/sentinel''
       = Inr ''../satdata/sentinel/s2a''"
proof -
  let ?ps = "[landsat_record, sentinel_record]"
  have h1: "\<forall>p \<in> set ?ps. p ''uuid'' \<noteq> None \<or> p ''entity_id'' \<noteq> None"
    by (simp add: world_defs)
  have h2: "\<forall>p \<in> set ?ps. \<forall>s'. \<exists>d. fst (download_product demo_env demo_remote p s') = Inr d"
    by (simp add: code_defs world_defs)
  have v: "fst (download_all demo_env demo_remote ?ps start)
       = Inr [''../satdata/landsat/lc8'', ''../satdata/sentinel/s2a'']"
    by (simp add: code_defs world_defs)
  have k: "landsat_record ''uuid'' = None" "sentinel_record ''uuid'' \<noteq> None"
    by (simp_all add: world_defs)
  from download_all_paths_in_input_order [OF h1 h2, of start] v
  have e: "fst (download_all demo_env demo_remote [] start) = Inr []"
    and q: "\<forall>i < length ?ps.
             ((?ps ! i) ''uuid'' \<noteq> None \<longrightarrow>
                sentinel_download demo_remote
                  (the (demo_env ''DHUS_USER''), the (demo_env ''DHUS_PASSWORD''))
                  (the ((?ps ! i) ''uuid'')) ''../satdata/sentinel''
                  = Inr ([''../satdata/landsat/lc8'', ''../satdata/sentinel/s2a''] ! i))
           \<and> ((?ps ! i) ''uuid'' = None \<longrightarrow>
                (?ps ! i) ''entity_id'' \<noteq> None
                \<and> ee_download demo_remote (the ((?ps ! i) ''entity_id'')) ''../satdata/landsat''
                    = Inr ([''../satdata/landsat/lc8'', ''../satdata/sentinel/s2a''] ! i))"
    by auto
  have "(0::nat) < length ?ps" by simp
  with q k(1) have a: "ee_download demo_remote (the (landsat_record ''entity_id''))
       ''../satdata/landsat'' = Inr ''../satdata/landsat/lc8''"
    by fastforce
  have "(1::nat) < length ?ps" by simp
  with q k(2) have b: "sentinel_download demo_remote
        (the (demo_env ''DHUS_USER''), the (demo_env ''DHUS_PASSWORD''))
        (the (sentinel_record ''uuid'')) ''../satdata/sentinel'' = Inr ''../satdata/sentinel/s2a''"
    by fastforce
  from e v a b show ?thesis by blast
qed

section \<open>Sessions\<close>




section \<open>The query task and its retries\<close>

lemma engine_events_provider:
  "\<forall>e \<in> set ext. event_provider e \<noteq> None \<Longrightarrow> engine_events ext = []"
  by (simp add: engine_events_def)

lemma engine_events_append:
  "engine_events (xs @ ys) = engine_events xs @ engine_events ys"
  by (simp add: engine_events_def)

lemma query_events:
  "\<exists>ext. events (snd (query env r pt bbox sd ed s)) = events s @ ext
      \<and> (\<forall>e \<in> set ext. event_provider e \<noteq> None)"
proof -
  consider "pt = ''S2MSI1C''" | "pt = ''landsat_8_c1''"
    | "pt \<noteq> ''S2MSI1C'' \<and> pt \<noteq> ''landsat_8_c1''" by blast
  then show ?thesis
  proof cases
    case 1
    with query_S2MSI1C_events [of env r bbox sd ed s] show ?thesis by fastforce
  next
    case 2
    with query_landsat_events [of env r bbox sd ed s] show ?thesis by fastforce
  next
    case 3
    then show ?thesis by (simp add: query_def)
  qed
qed

lemma task_run_schedule:
  assumes frame: "\<And>s. \<exists>ext. events (snd (run s)) = events s @ ext
      \<and> (\<forall>e \<in> set ext. event_provider e \<noteq> None)"
  shows "\<exists>k ext. k \<le> n \<and> events (snd (task_run n d name run s)) = events s @ ext
      \<and> engine_events ext = schedule name d k
      \<and> (\<forall>e. fst (task_run n d name run s) = Inl e \<longrightarrow> k = n)"
proof (induction n arbitrary: s)
  case 0
  from frame [of "emit (TaskRun name) s"] obtain ext where
    ext: "events (snd (run (emit (TaskRun name) s))) = events s @ (TaskRun name # ext)"
      "\<forall>e \<in> set ext. event_provider e \<noteq> None"
    by (auto simp: emit_def)
  from ext(2) have "engine_events (TaskRun name # ext) = schedule name d 0"
    by (simp add: engine_events_def)
  with ext(1) show ?case by auto
next
  case (Suc n)
  obtain x s1 where run: "run (emit (TaskRun name) s) = (x, s1)"
    by (cases "run (emit (TaskRun name) s)")
  from frame [of "emit (TaskRun name) s"] run obtain ext where
    ext: "events s1 = events s @ (TaskRun name # ext)"
      "\<forall>e \<in> set ext. event_provider e \<noteq> None"
    by (auto simp: emit_def)
  from ext(2) have ee: "engine_events ext = []" by (rule engine_events_provider)
  show ?case
  proof (cases x)
    case (Inr v)
    from ee have "engine_events (TaskRun name # ext) = schedule name d 0"
      by (simp add: engine_events_def)
    with run Inr ext(1) have "0 \<le> Suc n
        \<and> events (snd (task_run (Suc n) d name run s)) = events s @ (TaskRun name # ext)
        \<and> engine_events (TaskRun name # ext) = schedule name d 0
        \<and> (\<forall>e. fst (task_run (Suc n) d name run s) = Inl e \<longrightarrow> 0 = Suc n)"
      by simp
    then show ?thesis by blast
  next
    case (Inl e)
    from Suc.IH [of "emit (Delay d) s1"] obtain k ext' where
      k: "k \<le> n"
        "events (snd (task_run n d name run (emit (Delay d) s1)))
           = events (emit (Delay d) s1) @ ext'"
        "engine_events ext' = schedule name d k"
        "\<forall>e. fst (task_run n d name run (emit (Delay d) s1)) = Inl e \<longrightarrow> k = n"
      by blast
    let ?ext = "TaskRun name # ext @ Delay d # ext'"
    from ee k(3) have "engine_events ?ext = schedule name d (Suc k)"
      by (simp add: engine_events_def)
    with run Inl ext(1) k(1,2,4) have "Suc k \<le> Suc n
        \<and> events (snd (task_run (Suc n) d name run s)) = events s @ ?ext
        \<and> engine_events ?ext = schedule name d (Suc k)
        \<and> (\<forall>e. fst (task_run (Suc n) d name run s) = Inl e \<longrightarrow> Suc k = Suc n)"
      by (simp add: emit_def)
    then show ?thesis by blast
  qed
qed

text \<open>
  C5, as the code has it. With \<^verbatim>\<open>max_retries=3\<close> the query task runs at most four
  times: the first run and at most three retries, each retry after a delay of 5 seconds.
  A task that ends in failure has used all four runs, whatever the exception: an
  unsupported product type and missing credentials are retried like a remote failure.
\<close>

theorem query_task_retries:
  "(\<exists>k \<le> 3. engine_events (added s (snd (query_task env r pt bbox sd ed s)))
                 = schedule ''query'' 5 k
          \<and> (\<forall>e. fst (query_task env r pt bbox sd ed s) = Inl e \<longrightarrow> k = 3))
   \<and> (pt \<noteq> ''S2MSI1C'' \<and> pt \<noteq> ''landsat_8_c1'' \<longrightarrow>
        query_task env r pt bbox sd ed s =
          (Inl (ValueError ''Product type value is not currently supported.''),
           s\<lparr>events := events s @ schedule ''query'' 5 3\<rparr>))
   \<and> (env ''LANDSATXPLORE_USERNAME'' = None \<longrightarrow>
        query_task env r ''landsat_8_c1'' bbox sd ed s =
          (Inl (AssertionError ''Essential environment variables have not been set.''),
           s\<lparr>events := events s @ schedule ''query'' 5 3\<rparr>))
   \<and> (env ''DHUS_USER'' = None \<longrightarrow>
        query_task env r ''S2MSI1C'' bbox sd ed s =
          (Inl (AssertionError
             ''Essential username/password environment variables have not been set.''),
           s\<lparr>events := events s @ schedule ''query'' 5 3\<rparr>))"
proof (intro conjI impI)
  from task_run_schedule [of "query env r pt bbox sd ed" 3 5 "''query''" s, OF query_events]
  obtain k ext where k: "k \<le> 3"
      "events (snd (query_task env r pt bbox sd ed s)) = events s @ ext"
      "engine_events ext = schedule ''query'' 5 k"
      "\<forall>e. fst (query_task env r pt bbox sd ed s) = Inl e \<longrightarrow> k = 3"
    unfolding query_task_def by blast
  from k(2) have "added s (snd (query_task env r pt bbox sd ed s)) = ext"
    by (rule added_append)
  with k show "\<exists>k \<le> 3. engine_events (added s (snd (query_task env r pt bbox sd ed s)))
                 = schedule ''query'' 5 k
          \<and> (\<forall>e. fst (query_task env r pt bbox sd ed s) = Inl e \<longrightarrow> k = 3)"
    by auto
next
  assume "pt \<noteq> ''S2MSI1C'' \<and> pt \<noteq> ''landsat_8_c1''"
  then show "query_task env r pt bbox sd ed s =
          (Inl (ValueError ''Product type value is not currently supported.''),
           s\<lparr>events := events s @ schedule ''query'' 5 3\<rparr>)"
    by (simp add: query_task_def query_def emit_def eval_nat_numeral)
next
  assume "env ''LANDSATXPLORE_USERNAME'' = None"
  then show "query_task env r ''landsat_8_c1'' bbox sd ed s =
          (Inl (AssertionError ''Essential environment variables have not been set.''),
           s\<lparr>events := events s @ schedule ''query'' 5 3\<rparr>)"
    by (simp add: query_task_def query_def EarthExplorerApi_init_def truthy_def emit_def
        eval_nat_numeral)
next
  assume "env ''DHUS_USER'' = None"
  then show "query_task env r ''S2MSI1C'' bbox sd ed s =
          (Inl (AssertionError
             ''Essential username/password environment variables have not been set.''),
           s\<lparr>events := events s @ schedule ''query'' 5 3\<rparr>)"
    by (simp add: query_task_def query_def CopernicusApi_init_def truthy_def emit_def
        eval_nat_numeral)
qed

theorem query_task_retries_witness:
  "fst (query_task demo_env down_remote ''landsat_8_c1'' athens ''20210112'' ''20210114'' start)
     = Inl (RemoteError ''search failed'')
   \<and> engine_events (added start (snd (query_task demo_env down_remote ''landsat_8_c1'' athens
        ''20210112'' ''20210114'' start)))
     = [TaskRun ''query'', Delay 5, TaskRun ''query'', Delay 5, TaskRun ''query'', Delay 5,
        TaskRun ''query'']
   \<and> ''MOD09GA'' \<noteq> ''S2MSI1C'' \<and> ''MOD09GA'' \<noteq> ''landsat_8_c1''
   \<and> query_task demo_env demo_remote ''MOD09GA'' athens ''20210112'' ''20210114'' start
     = (Inl (ValueError ''Product type value is not currently supported.''),
        \<lparr>events =
           [TaskRun ''query'', Delay 5, TaskRun ''query'', Delay 5, TaskRun ''query'', Delay 5,
            TaskRun ''query''],
         next_session = 0\<rparr>)
   \<and> query_task Map.empty demo_remote ''landsat_8_c1'' athens ''20210112'' ''20210114'' start
     = (Inl (AssertionError ''Essential environment variables have not been set.''),
        \<lparr>events =
           [TaskRun ''query'', Delay 5, TaskRun ''query'', Delay 5, TaskRun ''query'', Delay 5,
            TaskRun ''query''],
         next_session = 0\<rparr>)
   \<and> query_task Map.empty demo_remote ''S2MSI1C'' athens ''20210112'' ''20210114'' start
     = (Inl (AssertionError
          ''Essential username/password environment variables have not been set.''),
        \<lparr>events =
           [TaskRun ''query'', Delay 5, TaskRun ''query'', Delay 5, TaskRun ''query'', Delay 5,
            TaskRun ''query''],
         next_session = 0\<rparr>)"
proof -
  note t1 = query_task_retries [of start demo_env down_remote "''landsat_8_c1''" athens
      "''20210112''" "''20210114''"]
  note t2 = query_task_retries [of start demo_env demo_remote "''MOD09GA''" athens
      "''20210112''" "''20210114''"]
  note t3 = query_task_retries [of start Map.empty demo_remote "''MOD09GA''" athens
      "''20210112''" "''20210114''"]
  have s3: "schedule ''query'' 5 3
     = [TaskRun ''query'', Delay 5, TaskRun ''query'', Delay 5, TaskRun ''query'', Delay 5,
        TaskRun ''query'']"
    by (simp add: eval_nat_numeral)
  have h1: "fst (query_task demo_env down_remote ''landsat_8_c1'' athens ''20210112''
      ''20210114'' start) = Inl (RemoteError ''search failed'')"
    by (simp add: query_task_def eval_nat_numeral code_defs world_defs)
  from t1 obtain k where "engine_events (added start (snd (query_task demo_env down_remote
        ''landsat_8_c1'' athens ''20210112'' ''20210114'' start))) = schedule ''query'' 5 k"
    and "\<forall>e. fst (query_task demo_env down_remote ''landsat_8_c1'' athens ''20210112''
        ''20210114'' start) = Inl e \<longrightarrow> k = 3"
    by blast
  with h1 s3 have a: "engine_events (added start (snd (query_task demo_env down_remote
        ''landsat_8_c1'' athens ''20210112'' ''20210114'' start)))
     = [TaskRun ''query'', Delay 5, TaskRun ''query'', Delay 5, TaskRun ''query'', Delay 5,
        TaskRun ''query'']"
    by simp
  have h2: "''MOD09GA'' \<noteq> ''S2MSI1C'' \<and> ''MOD09GA'' \<noteq> ''landsat_8_c1''" by simp
  with t2 s3 have b: "query_task demo_env demo_remote ''MOD09GA'' athens ''20210112''
      ''20210114'' start
     = (Inl (ValueError ''Product type value is not currently supported.''),
        \<lparr>events =
           [TaskRun ''query'', Delay 5, TaskRun ''query'', Delay 5, TaskRun ''query'', Delay 5,
            TaskRun ''query''],
         next_session = 0\<rparr>)"
    by (simp add: start_def)
  from t3 s3 have c: "query_task Map.empty demo_remote ''landsat_8_c1'' athens ''20210112''
      ''20210114'' start
     = (Inl (AssertionError ''Essential environment variables have not been set.''),
        \<lparr>events =
           [TaskRun ''query'', Delay 5, TaskRun ''query'', Delay 5, TaskRun ''query'', Delay 5,
            TaskRun ''query''],
         next_session = 0\<rparr>)"
    by (simp add: start_def)
  from t3 s3 have d: "query_task Map.empty demo_remote ''S2MSI1C'' athens ''20210112''
      ''20210114'' start
     = (Inl (AssertionError
          ''Essential username/password environment variables have not been set.''),
        \<lparr>events =
           [TaskRun ''query'', Delay 5, TaskRun ''query'', Delay 5, TaskRun ''query'', Delay 5,
            TaskRun ''query''],
         next_session = 0\<rparr>)"
    by (simp add: start_def)
  from h1 a h2 b c d show ?thesis by blast
qed

text \<open>
  C5 as stated fails: a query whose search always fails is run four times, not three;
  and the ValueError of an unsupported product type and the AssertionError of missing
  credentials are each retried three times.
\<close>

theorem query_task_runs_four_times:
  "query_task demo_env down_remote ''landsat_8_c1'' athens ''20210112'' ''20210114'' start
     = (Inl (RemoteError ''search failed''),
        \<lparr>events =
           [TaskRun ''query'', SessionOpen EarthExplorer 0, Request EarthExplorer 0 ''search'',
            Delay 5,
            TaskRun ''query'', SessionOpen EarthExplorer 1, Request EarthExplorer 1 ''search'',
            Delay 5,
            TaskRun ''query'', SessionOpen EarthExplorer 2, Request EarthExplorer 2 ''search'',
            Delay 5,
            TaskRun ''query'', SessionOpen EarthExplorer 3, Request EarthExplorer 3 ''search''],
         next_session = 4\<rparr>)
   \<and> query_task demo_env demo_remote ''MOD09GA'' athens ''20210112'' ''20210114'' start
     = (Inl (ValueError ''Product type value is not currently supported.''),
        \<lparr>events =
           [TaskRun ''query'', Delay 5, TaskRun ''query'', Delay 5, TaskRun ''query'', Delay 5,
            TaskRun ''query''],
         next_session = 0\<rparr>)
   \<and> query_task Map.empty demo_remote ''S2MSI1C'' athens ''20210112'' ''20210114'' start
     = (Inl (AssertionError
          ''Essential username/password environment variables have not been set.''),
        \<lparr>events =
           [TaskRun ''query'', Delay 5, TaskRun ''query'', Delay 5, TaskRun ''query'', Delay 5,
            TaskRun ''query''],
         next_session = 0\<rparr>)"
  by (simp add: query_task_def eval_nat_numeral code_defs world_defs)

section \<open>The flow\<close>










subsection \<open>The result of a task does not depend on the log it starts from\<close>







subsection \<open>Counting task runs in an interleaved log\<close>


lemma count_list_map_Pair:
  "count_list (map snd (map (Pair t) es)) x = count_list es x"
  by (simp add: comp_def)









subsection \<open>A run with one record of each kind\<close>








end
